theory Spec2Isabelle
  imports Complex_Main
begin

section \<open>Values and collaborators of the training loop (engine/engine_train.py)\<close>

text \<open>
  The class \<open>Trainer\<close> drives collaborators it does not implement: the two models, the
  optimizer, the scheduler, the mixing strategy, the loss, the data loaders, the
  tensorboard writer, the logger and \<open>save_checkpoint\<close>. The embedding keeps the
  control flow and the bookkeeping of \<open>Trainer\<close> and records every call to a
  collaborator, in order, as an event of a trace. What a collaborator answers (a batch
  list, logits, a loss, the learning rate) is an arbitrary function of the calls made so
  far, so the theorems hold for every behaviour of the collaborators. Collaborators are
  taken to return; the one exception the code of \<open>Trainer\<close> itself can raise is the
  \<open>ZeroDivisionError\<close> of \<open>self.log_iter % self.log_freq\<close>.

  A Python float is a finite number (idealised as a real, rounding is not modelled) or
  NaN; infinities are not modelled. Moving a tensor to the device returns the same
  tensor and is not recorded.
\<close>

datatype pyfloat = Fin real | NaN

datatype error = ZeroDivisionError

text \<open>The two model objects a \<open>Trainer\<close> holds: \<open>self.model\<close> and \<open>self.model_ema\<close>.\<close>

datatype model_ref = Model | ModelEma

text \<open>
  The messages handed to \<open>logger.info\<close>. The per-iteration message carries the epoch,
  the batch index, \<open>len(self.train_loader)\<close>, \<open>np.mean(loss_history)\<close>,
  \<open>np.mean(acc_history)\<close> and the learning rate, in the order of the format string
  (the percentage is computed from the batch index and the length and is left out).
\<close>

datatype log_msg =
    TrainingBanner
  | ValidationBanner
  | Separator
  | TrainIter int nat nat pyfloat pyfloat pyfloat
  | Finish pyfloat pyfloat

text \<open>
  Calls to collaborators. \<open>AddScalar tag value step\<close> is \<open>self.writer.add_scalar\<close>;
  \<open>SaveCheckpoint epoch is_best is_ema_best save_dir best_model_metric
  best_model_ema_metric\<close> is the call of \<open>save_checkpoint\<close> (the object references it
  also receives are fixed and left out).
\<close>

datatype event =
    LoggerInfo log_msg
  | ModelTrainMode model_ref
  | ModelEvalMode model_ref
  | NoGradEnter
  | NoGradExit
  | MixForward
  | Forward model_ref
  | MixCriterion
  | Criterion
  | ZeroGrad
  | Backward
  | OptimizerStep
  | EmaUpdate
  | AddScalar string pyfloat int
  | SchedulerStep int
  | GcCollect
  | SaveCheckpoint int bool bool string real real

text \<open>
  The collaborators' answers. \<open>'x\<close> is an input tensor, \<open>'l\<close> a logits tensor, \<open>'m\<close>
  what \<open>mix.forward\<close> returns besides the mixed inputs (mode, both target sets and the
  mixing coefficient). A batch is a pair of an input tensor and the list of its target
  labels, one per sample. \<open>argmax l i\<close> is entry \<open>i\<close> of \<open>l.argmax(dim=-1)\<close>: the
  predicted label of sample \<open>i\<close>. Losses are read after \<open>.detach().item()\<close>.
\<close>

record ('x, 'l, 'm) env =
  train_loader :: "event list \<Rightarrow> ('x \<times> nat list) list"
  valid_loader :: "event list \<Rightarrow> ('x \<times> nat list) list"
  get_lr :: "event list \<Rightarrow> pyfloat"
  mix_forward :: "event list \<Rightarrow> 'x \<Rightarrow> nat list \<Rightarrow> 'm \<times> 'x"
  mix_criterion :: "event list \<Rightarrow> 'm \<Rightarrow> 'l \<Rightarrow> pyfloat"
  forward :: "event list \<Rightarrow> model_ref \<Rightarrow> 'x \<Rightarrow> 'l"
  criterion :: "event list \<Rightarrow> 'l \<Rightarrow> nat list \<Rightarrow> pyfloat"
  argmax :: "'l \<Rightarrow> nat \<Rightarrow> nat"

text \<open>
  The fields of a \<open>Trainer\<close> that its methods read or write, the train/eval mode of the
  two models, and the trace of calls made so far. The best metrics are finite numbers:
  they start at 0 (or at the value restored from a checkpoint) and the only assignment
  stores a value that compared strictly greater, which NaN never does.
\<close>

record state =
  start_epoch :: int
  max_epoch :: int
  log_freq :: int
  log_iter :: int
  best_model_metric :: real
  best_model_ema_metric :: real
  save_dir :: string
  model_training :: bool
  model_ema_training :: bool
  trace :: "event list"

record metrics =
  Accuracy :: pyfloat
  Loss :: pyfloat

section \<open>Numeric helpers\<close>

text \<open>\<open>np.mean\<close> of a list of floats: NaN on the empty list and when an entry is NaN.\<close>

fun fin_values :: "pyfloat list \<Rightarrow> real list option" where
  "fin_values [] = Some []"
| "fin_values (NaN # xs) = None"
| "fin_values (Fin r # xs) = (case fin_values xs of None \<Rightarrow> None | Some rs \<Rightarrow> Some (r # rs))"

definition np_mean :: "pyfloat list \<Rightarrow> pyfloat" where
  "np_mean xs =
     (if xs = [] then NaN
      else case fin_values xs of
             None \<Rightarrow> NaN
           | Some rs \<Rightarrow> Fin (sum_list rs / real (length rs)))"

text \<open>
  \<open>(logits.argmax(dim=-1) == targets).float().mean().detach().item()\<close>: the share of
  samples whose predicted label is the target; the mean of an empty tensor is NaN.
\<close>

definition hits :: "('l \<Rightarrow> nat \<Rightarrow> nat) \<Rightarrow> 'l \<Rightarrow> nat list \<Rightarrow> bool list" where
  "hits am logits targets = map (\<lambda>i. am logits i = targets ! i) [0 ..< length targets]"

definition tensor_mean :: "bool list \<Rightarrow> pyfloat" where
  "tensor_mean bs =
     (if bs = [] then NaN
      else Fin (real (length (filter (\<lambda>b. b) bs)) / real (length bs)))"

definition batch_accuracy :: "('l \<Rightarrow> nat \<Rightarrow> nat) \<Rightarrow> 'l \<Rightarrow> nat list \<Rightarrow> pyfloat" where
  "batch_accuracy am logits targets = tensor_mean (hits am logits targets)"

text \<open>Python's \<open>x > y\<close> for a float \<open>x\<close> and a number \<open>y\<close>: false when \<open>x\<close> is NaN.\<close>

fun float_gt :: "pyfloat \<Rightarrow> real \<Rightarrow> bool" where
  "float_gt (Fin a) b = (b < a)"
| "float_gt NaN b = False"

text \<open>
  The number a float stands for, as stored by \<open>self.best_model_metric = ...\<close>; the
  assignment is only reached with a float that compared greater, so the second argument
  (kept for NaN) is never the result there.
\<close>

fun fin_value :: "pyfloat \<Rightarrow> real \<Rightarrow> real" where
  "fin_value (Fin a) d = a"
| "fin_value NaN d = d"

section \<open>State helpers\<close>

definition emit :: "event \<Rightarrow> state \<Rightarrow> state" where
  "emit e s = s\<lparr>trace := trace s @ [e]\<rparr>"

text \<open>\<open>model.train()\<close> and \<open>model.eval()\<close> on one of the two models.\<close>

fun set_train :: "model_ref \<Rightarrow> state \<Rightarrow> state" where
  "set_train Model s = emit (ModelTrainMode Model) (s\<lparr>model_training := True\<rparr>)"
| "set_train ModelEma s = emit (ModelTrainMode ModelEma) (s\<lparr>model_ema_training := True\<rparr>)"

fun set_eval :: "model_ref \<Rightarrow> state \<Rightarrow> state" where
  "set_eval Model s = emit (ModelEvalMode Model) (s\<lparr>model_training := False\<rparr>)"
| "set_eval ModelEma s = emit (ModelEvalMode ModelEma) (s\<lparr>model_ema_training := False\<rparr>)"

section \<open>Trainer.train_one_epoch\<close>

text \<open>
  The body of the loop over \<open>enumerate(self.train_loader)\<close>, lines 92 to 146. \<open>n\<close> is
  \<open>len(self.train_loader)\<close>, \<open>h\<close> the pair \<open>(loss_history, acc_history)\<close>. The
  accuracy compares the predictions with the targets of the batch as loaded, not with
  the mixed ones.
\<close>

definition train_batch ::
  "('x, 'l, 'm) env \<Rightarrow> int \<Rightarrow> nat \<Rightarrow> nat \<Rightarrow> 'x \<times> nat list \<Rightarrow> pyfloat list \<times> pyfloat list
     \<Rightarrow> state \<Rightarrow> (error + pyfloat list \<times> pyfloat list) \<times> state" where
  "train_batch env epoch n batch_idx batch h s =
     (let lr = get_lr env (trace s);
          (inputs, targets) = batch;
          (mx, mixed) = mix_forward env (trace s) inputs targets;
          s1 = emit MixForward s;
          logits = forward env (trace s1) Model mixed;
          s2 = emit (Forward Model) s1;
          loss = mix_criterion env (trace s2) mx logits;
          s3 = emit MixCriterion s2;
          s4 = emit ZeroGrad s3;
          s5 = emit Backward s4;
          s6 = emit OptimizerStep s5;
          s7 = emit EmaUpdate s6;
          loss_history = fst h @ [loss];
          acc_history = snd h @ [batch_accuracy (argmax env) logits targets]
      in if log_freq s7 = 0 then (Inl ZeroDivisionError, s7)
         else
           let s8 =
                 (if log_iter s7 mod log_freq s7 = 0
                  then emit (LoggerInfo (TrainIter epoch batch_idx n
                                (np_mean loss_history) (np_mean acc_history) lr))
                        (emit (AddScalar ''Train/Loss_iter'' (last loss_history) (log_iter s7))
                          (emit (AddScalar ''Train/Accuracy_iter'' (last acc_history) (log_iter s7))
                            s7))
                  else s7)
           in (Inr (loss_history, acc_history), s8\<lparr>log_iter := log_iter s8 + 1\<rparr>))"

fun train_loop ::
  "('x, 'l, 'm) env \<Rightarrow> int \<Rightarrow> nat \<Rightarrow> nat \<Rightarrow> ('x \<times> nat list) list \<Rightarrow> pyfloat list \<times> pyfloat list
     \<Rightarrow> state \<Rightarrow> (error + pyfloat list \<times> pyfloat list) \<times> state" where
  "train_loop env epoch n batch_idx [] h s = (Inr h, s)"
| "train_loop env epoch n batch_idx (b # bs) h s =
     (case train_batch env epoch n batch_idx b h s of
        (Inl err, s') \<Rightarrow> (Inl err, s')
      | (Inr h', s') \<Rightarrow> train_loop env epoch n (Suc batch_idx) bs h' s')"

definition train_one_epoch ::
  "('x, 'l, 'm) env \<Rightarrow> int \<Rightarrow> state \<Rightarrow> (error + metrics) \<times> state" where
  "train_one_epoch env epoch s =
     (let s1 = emit (LoggerInfo TrainingBanner) s;
          s2 = set_train Model s1;
          batches = train_loader env (trace s2)
      in case train_loop env epoch (length batches) 0 batches ([], []) s2 of
           (Inl err, s3) \<Rightarrow> (Inl err, s3)
         | (Inr h, s3) \<Rightarrow>
             (let metric_acc = np_mean (snd h);
                  metric_loss = np_mean (fst h);
                  s4 = emit (LoggerInfo (Finish metric_acc metric_loss)) s3
              in (Inr \<lparr>Accuracy = metric_acc, Loss = metric_loss\<rparr>, s4)))"

section \<open>Trainer.valid_one_epoch\<close>

text \<open>The body of the loop over \<open>self.valid_loader\<close>, lines 166 to 179.\<close>

definition valid_batch ::
  "('x, 'l, 'm) env \<Rightarrow> model_ref \<Rightarrow> 'x \<times> nat list \<Rightarrow> pyfloat list \<times> pyfloat list
     \<Rightarrow> state \<Rightarrow> (pyfloat list \<times> pyfloat list) \<times> state" where
  "valid_batch env model batch h s =
     (let (inputs, targets) = batch;
          logits = forward env (trace s) model inputs;
          s1 = emit (Forward model) s;
          loss = criterion env (trace s1) logits targets;
          s2 = emit Criterion s1
      in ((fst h @ [loss], snd h @ [batch_accuracy (argmax env) logits targets]), s2))"

fun valid_loop ::
  "('x, 'l, 'm) env \<Rightarrow> model_ref \<Rightarrow> ('x \<times> nat list) list \<Rightarrow> pyfloat list \<times> pyfloat list
     \<Rightarrow> state \<Rightarrow> (pyfloat list \<times> pyfloat list) \<times> state" where
  "valid_loop env model [] h s = (h, s)"
| "valid_loop env model (b # bs) h s =
     (case valid_batch env model b h s of (h', s') \<Rightarrow> valid_loop env model bs h' s')"

text \<open>Line 158: \<open>model = self.model if isEMA else self.model_ema\<close>.\<close>

definition select_model :: "bool \<Rightarrow> model_ref" where
  "select_model isEMA = (if isEMA then Model else ModelEma)"

definition valid_one_epoch ::
  "('x, 'l, 'm) env \<Rightarrow> int \<Rightarrow> bool \<Rightarrow> state \<Rightarrow> metrics \<times> state" where
  "valid_one_epoch env epoch isEMA s =
     (let model = select_model isEMA;
          s1 = emit (LoggerInfo ValidationBanner) s;
          s2 = set_eval model s1;
          s3 = emit NoGradEnter s2;
          (h, s4) = valid_loop env model (valid_loader env (trace s3)) ([], []) s3;
          s5 = emit NoGradExit s4;
          metric_acc = np_mean (snd h);
          metric_loss = np_mean (fst h);
          s6 = emit (LoggerInfo (Finish metric_acc metric_loss)) s5
      in (\<lparr>Accuracy = metric_acc, Loss = metric_loss\<rparr>, s6))"

section \<open>Trainer.write_log and Trainer.run\<close>

definition write_log :: "int \<Rightarrow> pyfloat \<Rightarrow> metrics \<Rightarrow> metrics \<Rightarrow> metrics \<Rightarrow> state \<Rightarrow> state" where
  "write_log epoch lr train_metric valid_metric valid_ema_metric s =
     (emit (AddScalar ''Valid/EMA_Loss'' (Loss valid_ema_metric) epoch)
     (emit (AddScalar ''Valid/EMA_Accuracy'' (Accuracy valid_ema_metric) epoch)
     (emit (AddScalar ''Valid/Loss'' (Loss valid_metric) epoch)
     (emit (AddScalar ''Valid/Accuracy'' (Accuracy valid_metric) epoch)
     (emit (AddScalar ''Train/Loss'' (Loss train_metric) epoch)
     (emit (AddScalar ''Train/Accuracy'' (Accuracy train_metric) epoch)
     (emit (AddScalar ''Learing rate'' lr epoch) s)))))))"

text \<open>
  Lines 243 to 251: the two comparisons against the stored bests. The result is the pair
  \<open>(is_best, is_ema_best)\<close> and the state with the bests updated.
\<close>

definition check_best :: "metrics \<Rightarrow> metrics \<Rightarrow> state \<Rightarrow> (bool \<times> bool) \<times> state" where
  "check_best valid_metrics valid_ema_metrics s =
     (let is_best = float_gt (Accuracy valid_metrics) (best_model_metric s);
          s1 = (if is_best
                then s\<lparr>best_model_metric := fin_value (Accuracy valid_metrics) (best_model_metric s)\<rparr>
                else s);
          is_ema_best = float_gt (Accuracy valid_ema_metrics) (best_model_ema_metric s1);
          s2 = (if is_ema_best
                then s1\<lparr>best_model_ema_metric :=
                         fin_value (Accuracy valid_ema_metrics) (best_model_ema_metric s1)\<rparr>
                else s1)
      in ((is_best, is_ema_best), s2))"

text \<open>Lines 257 to 268: the call of \<open>save_checkpoint\<close>.\<close>

definition save_checkpoint :: "int \<Rightarrow> bool \<Rightarrow> bool \<Rightarrow> state \<Rightarrow> state" where
  "save_checkpoint epoch is_best is_ema_best s =
     emit (SaveCheckpoint epoch is_best is_ema_best (save_dir s)
             (best_model_metric s) (best_model_ema_metric s)) s"

text \<open>The body of the loop of \<open>run\<close>, lines 229 to 274.\<close>

definition run_epoch :: "('x, 'l, 'm) env \<Rightarrow> int \<Rightarrow> state \<Rightarrow> (error + unit) \<times> state" where
  "run_epoch env epoch s =
     (let s1 = emit (SchedulerStep (epoch + 1)) s;
          s2 = emit (LoggerInfo Separator) s1
      in case train_one_epoch env epoch s2 of
           (Inl err, s3) \<Rightarrow> (Inl err, s3)
         | (Inr train_metrics, s3) \<Rightarrow>
             (let (valid_metrics, s4) = valid_one_epoch env epoch False s3;
                  (valid_ema_metrics, s5) = valid_one_epoch env epoch True s4;
                  s6 = emit GcCollect s5;
                  ((is_best, is_ema_best), s7) = check_best valid_metrics valid_ema_metrics s6;
                  s8 = save_checkpoint epoch is_best is_ema_best s7;
                  lr = get_lr env (trace s8);
                  s9 = write_log epoch lr train_metrics valid_metrics valid_ema_metrics s8
              in (Inr (), emit (LoggerInfo Separator) s9)))"

fun run_epochs :: "('x, 'l, 'm) env \<Rightarrow> int list \<Rightarrow> state \<Rightarrow> (error + unit) \<times> state" where
  "run_epochs env [] s = (Inr (), s)"
| "run_epochs env (epoch # es) s =
     (case run_epoch env epoch s of
        (Inl err, s') \<Rightarrow> (Inl err, s')
      | (Inr u, s') \<Rightarrow> run_epochs env es s')"

text \<open>\<open>range(self.start_epoch, self.max_epoch)\<close> is the list \<open>[start_epoch .. max_epoch - 1]\<close>.\<close>

definition run :: "('x, 'l, 'm) env \<Rightarrow> state \<Rightarrow> (error + unit) \<times> state" where
  "run env s =
     (let s1 = emit ZeroGrad s;
          s2 = emit OptimizerStep s1
      in run_epochs env [start_epoch s2 .. max_epoch s2 - 1] s2)"

text \<open>The events a step added to the trace of the state it started from.\<close>

definition new_events :: "state \<Rightarrow> state \<Rightarrow> event list" where
  "new_events s s' = drop (length (trace s)) (trace s')"

section \<open>Observers used to state the properties\<close>

text \<open>
  The batches an epoch iterates over: what the loader yields at the moment the loop
  starts, after the banner and the mode switch (and, in validation, after entering
  \<open>torch.no_grad()\<close>).
\<close>

definition train_batches :: "('x, 'l, 'm) env \<Rightarrow> state \<Rightarrow> ('x \<times> nat list) list" where
  "train_batches env s =
     train_loader env (trace s @ [LoggerInfo TrainingBanner, ModelTrainMode Model])"

definition valid_batches :: "('x, 'l, 'm) env \<Rightarrow> bool \<Rightarrow> state \<Rightarrow> ('x \<times> nat list) list" where
  "valid_batches env isEMA s =
     valid_loader env
       (trace s @ [LoggerInfo ValidationBanner, ModelEvalMode (select_model isEMA), NoGradEnter])"

text \<open>
  The logits, the loss and the accuracy that one training step computes for a batch
  when it starts in state \<open>s\<close>, and the events it logs when the logging counter is a
  multiple of \<open>log_freq\<close>.
\<close>

definition batch_logits :: "('x, 'l, 'm) env \<Rightarrow> state \<Rightarrow> 'x \<times> nat list \<Rightarrow> 'l" where
  "batch_logits env s b =
     forward env (trace s @ [MixForward]) Model (snd (mix_forward env (trace s) (fst b) (snd b)))"

definition batch_loss :: "('x, 'l, 'm) env \<Rightarrow> state \<Rightarrow> 'x \<times> nat list \<Rightarrow> pyfloat" where
  "batch_loss env s b =
     mix_criterion env (trace s @ [MixForward, Forward Model])
       (fst (mix_forward env (trace s) (fst b) (snd b))) (batch_logits env s b)"

definition batch_acc :: "('x, 'l, 'm) env \<Rightarrow> state \<Rightarrow> 'x \<times> nat list \<Rightarrow> pyfloat" where
  "batch_acc env s b = batch_accuracy (argmax env) (batch_logits env s b) (snd b)"

definition iter_log ::
  "('x, 'l, 'm) env \<Rightarrow> int \<Rightarrow> nat \<Rightarrow> nat \<Rightarrow> 'x \<times> nat list \<Rightarrow> pyfloat list \<times> pyfloat list
     \<Rightarrow> state \<Rightarrow> event list" where
  "iter_log env epoch n batch_idx b h s =
     [AddScalar ''Train/Accuracy_iter'' (batch_acc env s b) (log_iter s),
      AddScalar ''Train/Loss_iter'' (batch_loss env s b) (log_iter s),
      LoggerInfo (TrainIter epoch batch_idx n
         (np_mean (fst h @ [batch_loss env s b])) (np_mean (snd h @ [batch_acc env s b]))
         (get_lr env (trace s)))]"

text \<open>A step only appends to the trace.\<close>

definition extends :: "state \<Rightarrow> state \<Rightarrow> bool" where
  "extends s s' = (trace s' = trace s @ new_events s s')"

text \<open>A float that is a number of the closed interval from 0 to 1.\<close>

definition in_unit :: "pyfloat \<Rightarrow> bool" where
  "in_unit x = (case x of Fin a \<Rightarrow> 0 \<le> a \<and> a \<le> 1 | NaN \<Rightarrow> False)"

text \<open>The model objects that a stretch of the trace put in a mode or ran, in order.\<close>

fun models_called :: "event list \<Rightarrow> model_ref list" where
  "models_called [] = []"
| "models_called (ModelTrainMode m # es) = m # models_called es"
| "models_called (ModelEvalMode m # es) = m # models_called es"
| "models_called (Forward m # es) = m # models_called es"
| "models_called (e # es) = models_called es"

text \<open>
  The calls of one training step: mixing, forward pass, loss, and the four calls on the
  optimizer, the loss tensor and the EMA model.
\<close>

fun is_step_event :: "event \<Rightarrow> bool" where
  "is_step_event MixForward = True"
| "is_step_event (Forward m) = True"
| "is_step_event MixCriterion = True"
| "is_step_event ZeroGrad = True"
| "is_step_event Backward = True"
| "is_step_event OptimizerStep = True"
| "is_step_event EmaUpdate = True"
| "is_step_event e = False"

definition step_events :: "event list" where
  "step_events =
     [MixForward, Forward Model, MixCriterion, ZeroGrad, Backward, OptimizerStep, EmaUpdate]"




text \<open>Neither best metric is smaller in the second state than in the first.\<close>

definition bests_le :: "state \<Rightarrow> state \<Rightarrow> bool" where
  "bests_le s s' =
     (best_model_metric s \<le> best_model_metric s' \<and>
      best_model_ema_metric s \<le> best_model_ema_metric s')"



text \<open>
  The states and metrics of one pass through the body of the loop of \<open>run\<close> that starts
  in state \<open>s\<close>: after the scheduler step and the separator line, after
  \<open>train_one_epoch(epoch)\<close>, after \<open>valid_one_epoch(epoch)\<close> and after
  \<open>valid_one_epoch(epoch, isEMA=True)\<close>.
\<close>

definition epoch_start :: "int \<Rightarrow> state \<Rightarrow> state" where
  "epoch_start epoch s = emit (LoggerInfo Separator) (emit (SchedulerStep (epoch + 1)) s)"

definition train_result :: "('x, 'l, 'm) env \<Rightarrow> int \<Rightarrow> state \<Rightarrow> error + metrics" where
  "train_result env epoch s = fst (train_one_epoch env epoch (epoch_start epoch s))"

definition after_train :: "('x, 'l, 'm) env \<Rightarrow> int \<Rightarrow> state \<Rightarrow> state" where
  "after_train env epoch s = snd (train_one_epoch env epoch (epoch_start epoch s))"

definition valid_result :: "('x, 'l, 'm) env \<Rightarrow> int \<Rightarrow> state \<Rightarrow> metrics" where
  "valid_result env epoch s = fst (valid_one_epoch env epoch False (after_train env epoch s))"

definition after_valid :: "('x, 'l, 'm) env \<Rightarrow> int \<Rightarrow> state \<Rightarrow> state" where
  "after_valid env epoch s = snd (valid_one_epoch env epoch False (after_train env epoch s))"

definition valid_ema_result :: "('x, 'l, 'm) env \<Rightarrow> int \<Rightarrow> state \<Rightarrow> metrics" where
  "valid_ema_result env epoch s =
     fst (valid_one_epoch env epoch True (after_valid env epoch s))"

definition after_valid_ema :: "('x, 'l, 'm) env \<Rightarrow> int \<Rightarrow> state \<Rightarrow> state" where
  "after_valid_ema env epoch s =
     snd (valid_one_epoch env epoch True (after_valid env epoch s))"

text \<open>
  Lines 240 to 274 as one step: what the body of the loop does after the two
  validation passes, given the three metrics.
\<close>

definition epoch_tail ::
  "('x, 'l, 'm) env \<Rightarrow> int \<Rightarrow> metrics \<Rightarrow> metrics \<Rightarrow> metrics \<Rightarrow> state \<Rightarrow> state" where
  "epoch_tail env epoch train_metrics valid_metrics valid_ema_metrics s5 =
     (let s6 = emit GcCollect s5;
          ((is_best, is_ema_best), s7) = check_best valid_metrics valid_ema_metrics s6;
          s8 = save_checkpoint epoch is_best is_ema_best s7;
          lr = get_lr env (trace s8);
          s9 = write_log epoch lr train_metrics valid_metrics valid_ema_metrics s8
      in emit (LoggerInfo Separator) s9)"



text \<open>The configuration and the best metrics are the same in two states.\<close>

definition same_config :: "state \<Rightarrow> state \<Rightarrow> bool" where
  "same_config s s' =
     (start_epoch s' = start_epoch s \<and> max_epoch s' = max_epoch s \<and>
      log_freq s' = log_freq s \<and> save_dir s' = save_dir s \<and>
      best_model_metric s' = best_model_metric s \<and>
      best_model_ema_metric s' = best_model_ema_metric s)"

section \<open>Concrete inputs\<close>

text \<open>
  A small world to run the definitions on. An input tensor is a number, the logits of
  a batch are the label predicted for all its samples: the live model predicts 0, the
  EMA model predicts 1. Both loaders yield two batches, with targets \<open>[0, 1]\<close> and
  \<open>[1]\<close>; the training loss of input \<open>x\<close> is \<open>2 + x\<close>, the validation loss is 1 and the
  learning rate is 1/10.
\<close>

definition example_env :: "(nat, nat, nat) env" where
  "example_env =
     \<lparr>train_loader = (\<lambda>tr. [(0, [0, 1]), (1, [1])]),
      valid_loader = (\<lambda>tr. [(0, [0, 1]), (1, [1])]),
      get_lr = (\<lambda>tr. Fin (1 / 10)),
      mix_forward = (\<lambda>tr x targets. (x, x)),
      mix_criterion = (\<lambda>tr m l. Fin (2 + real m)),
      forward = (\<lambda>tr m x. case m of Model \<Rightarrow> 0 | ModelEma \<Rightarrow> 1),
      criterion = (\<lambda>tr l targets. Fin 1),
      argmax = (\<lambda>l i. l)\<rparr>"

text \<open>The same world with loaders that yield no batch.\<close>

definition empty_env :: "(nat, nat, nat) env" where
  "empty_env = example_env\<lparr>train_loader := (\<lambda>tr. []), valid_loader := (\<lambda>tr. [])\<rparr>"


text \<open>A fresh trainer for epochs 0 and 1 that logs every iteration.\<close>

definition example_state :: state where
  "example_state =
     \<lparr>start_epoch = 0, max_epoch = 2, log_freq = 1, log_iter = 0,
      best_model_metric = 0, best_model_ema_metric = 0, save_dir = ''runs'',
      model_training = False, model_ema_training = False, trace = []\<rparr>"

section \<open>Basic facts\<close>

lemma new_events_append: "trace s' = trace s @ evs \<Longrightarrow> new_events s s' = evs"
  by (simp add: new_events_def)

lemma tensor_mean_unit: "bs \<noteq> [] \<Longrightarrow> in_unit (tensor_mean bs)"
  by (simp add: tensor_mean_def in_unit_def divide_le_eq)

lemma batch_accuracy_unit: "targets \<noteq> [] \<Longrightarrow> in_unit (batch_accuracy am l targets)"
  by (simp add: batch_accuracy_def hits_def tensor_mean_unit)




section \<open>Facts about valid_one_epoch\<close>

lemma valid_loop_state:
  "snd (valid_loop env m bs h s) =
     s\<lparr>trace := trace s @ concat (map (\<lambda>b. [Forward m, Criterion]) bs)\<rparr>"
  by (induction bs arbitrary: h s)
     (simp_all add: valid_batch_def emit_def Let_def split: prod.splits)


lemma valid_one_epoch_metrics:
  "fst (valid_one_epoch env epoch isEMA s) =
     (let h = fst (valid_loop env (select_model isEMA) (valid_batches env isEMA s) ([], [])
                (emit NoGradEnter (set_eval (select_model isEMA) (emit (LoggerInfo ValidationBanner) s))))
      in \<lparr>Accuracy = np_mean (snd h), Loss = np_mean (fst h)\<rparr>)"
  by (cases isEMA) (simp_all add: valid_one_epoch_def valid_batches_def select_model_def emit_def Let_def split: prod.splits)

lemma valid_one_epoch_state:
  "snd (valid_one_epoch env epoch isEMA s) =
     (let evs = [LoggerInfo ValidationBanner, ModelEvalMode (select_model isEMA), NoGradEnter]
                @ concat (map (\<lambda>b. [Forward (select_model isEMA), Criterion]) (valid_batches env isEMA s))
                @ [NoGradExit, LoggerInfo (Finish (Accuracy (fst (valid_one_epoch env epoch isEMA s)))
                                                 (Loss (fst (valid_one_epoch env epoch isEMA s))))]
      in if isEMA then s\<lparr>model_training := False, trace := trace s @ evs\<rparr>
         else s\<lparr>model_ema_training := False, trace := trace s @ evs\<rparr>)"
proof -
  obtain h s4 where L: "valid_loop env (select_model isEMA) (valid_batches env isEMA s) ([], [])
                (emit NoGradEnter (set_eval (select_model isEMA) (emit (LoggerInfo ValidationBanner) s))) = (h, s4)"
    by (cases "valid_loop env (select_model isEMA) (valid_batches env isEMA s) ([], [])
                (emit NoGradEnter (set_eval (select_model isEMA) (emit (LoggerInfo ValidationBanner) s)))")
  have s4: "s4 = snd (valid_loop env (select_model isEMA) (valid_batches env isEMA s) ([], [])
                (emit NoGradEnter (set_eval (select_model isEMA) (emit (LoggerInfo ValidationBanner) s))))"
    using L by simp
  have tr: "trace (emit NoGradEnter (set_eval (select_model isEMA) (emit (LoggerInfo ValidationBanner) s)))
         = trace s @ [LoggerInfo ValidationBanner, ModelEvalMode (select_model isEMA), NoGradEnter]"
    by (cases isEMA) (simp_all add: select_model_def emit_def)
  show ?thesis
    using L tr unfolding s4 valid_loop_state
    by (cases isEMA) (simp_all add: valid_one_epoch_def valid_batches_def select_model_def emit_def Let_def split: prod.splits)
qed

section \<open>Facts about train_one_epoch\<close>

lemma train_batch_eq:
  "train_batch env epoch n i b h s =
     (if log_freq s = 0 then (Inl ZeroDivisionError, s\<lparr>trace := trace s @ step_events\<rparr>)
      else (Inr (fst h @ [batch_loss env s b], snd h @ [batch_acc env s b]),
            s\<lparr>trace := trace s @ step_events @
                   (if log_iter s mod log_freq s = 0 then iter_log env epoch n i b h s else []),
              log_iter := log_iter s + 1\<rparr>))"
  by (simp add: train_batch_def batch_loss_def batch_acc_def batch_logits_def iter_log_def
        step_events_def emit_def Let_def split: prod.splits)

lemma filter_step_events: "filter is_step_event step_events = step_events"
  by (simp add: step_events_def)

lemma filter_iter_log: "filter is_step_event (iter_log env epoch n i b h s) = []"
  by (simp add: iter_log_def)

lemma train_loop_zero:
  "log_freq s = 0 \<Longrightarrow> bs \<noteq> [] \<Longrightarrow>
   train_loop env epoch n i bs h s = (Inl ZeroDivisionError, s\<lparr>trace := trace s @ step_events\<rparr>)"
  by (cases bs) (simp_all add: train_batch_eq)

lemma extendsI: "trace s' = trace s @ evs \<Longrightarrow> extends s s'"
  by (simp add: extends_def new_events_def)

lemma extends_refl: "extends s s"
  by (simp add: extends_def new_events_def)

lemma extends_trans: "extends s s' \<Longrightarrow> extends s' s'' \<Longrightarrow> extends s s''"
  unfolding extends_def new_events_def
  by (metis append.assoc append_eq_conv_conj)

lemma train_loop_steps:
  "log_freq s \<noteq> 0 \<Longrightarrow>
   filter is_step_event (trace (snd (train_loop env epoch n i bs h s))) =
     filter is_step_event (trace s) @ concat (replicate (length bs) step_events)"
proof (induction bs arbitrary: h s i)
  case Nil
  show ?case by simp
next
  case (Cons b bs)
  show ?case using Cons.prems
    by (simp add: train_batch_eq Cons.IH filter_step_events filter_iter_log)
qed

lemma train_loop_extends:
  "extends s (snd (train_loop env epoch n i bs h s))"
proof (induction bs arbitrary: h s i)
  case Nil
  show ?case by (simp add: extends_refl)
next
  case (Cons b bs)
  show ?case
  proof (cases "log_freq s = 0")
    case True
    then show ?thesis by (simp add: train_batch_eq extendsI)
  next
    case False
    let ?s' = "s\<lparr>trace := trace s @ step_events @
                   (if log_iter s mod log_freq s = 0 then iter_log env epoch n i b h s else []),
              log_iter := log_iter s + 1\<rparr>"
    let ?h' = "(fst h @ [batch_loss env s b], snd h @ [batch_acc env s b])"
    have e1: "extends s ?s'"
      by (rule extendsI[of _ _ "step_events @
             (if log_iter s mod log_freq s = 0 then iter_log env epoch n i b h s else [])"]) simp
    have step: "train_loop env epoch n i (b # bs) h s = train_loop env epoch n (Suc i) bs ?h' ?s'"
      using False by (simp add: train_batch_eq)
    show ?thesis unfolding step by (rule extends_trans[OF e1 Cons.IH])
  qed
qed

lemma train_loop_result:
  "log_freq s \<noteq> 0 \<Longrightarrow>
   \<exists>h'. fst (train_loop env epoch n i bs h s) = Inr h' \<and>
     length (snd h') = length (snd h) + length bs \<and>
     length (fst h') = length (fst h) + length bs \<and>
     ((\<forall>b\<in>set bs. snd b \<noteq> []) \<longrightarrow> (\<forall>x\<in>set (snd h). in_unit x) \<longrightarrow> (\<forall>x\<in>set (snd h'). in_unit x))"
proof (induction bs arbitrary: h s i)
  case Nil
  show ?case by simp
next
  case (Cons b bs)
  let ?s' = "s\<lparr>trace := trace s @ step_events @
                   (if log_iter s mod log_freq s = 0 then iter_log env epoch n i b h s else []),
              log_iter := log_iter s + 1\<rparr>"
  let ?h' = "(fst h @ [batch_loss env s b], snd h @ [batch_acc env s b])"
  have lf: "log_freq ?s' \<noteq> 0" using Cons.prems by simp
  from Cons.IH[OF lf, of "Suc i" ?h'] obtain h'' where
    IH0: "fst (train_loop env epoch n (Suc i) bs ?h' ?s') = Inr h'' \<and>
     length (snd h'') = length (snd ?h') + length bs \<and>
     length (fst h'') = length (fst ?h') + length bs \<and>
     ((\<forall>b\<in>set bs. snd b \<noteq> []) \<longrightarrow> (\<forall>x\<in>set (snd ?h'). in_unit x) \<longrightarrow> (\<forall>x\<in>set (snd h''). in_unit x))"
    ..
  note IH = IH0[THEN conjunct1] IH0[THEN conjunct2, THEN conjunct1]
    IH0[THEN conjunct2, THEN conjunct2, THEN conjunct1]
    IH0[THEN conjunct2, THEN conjunct2, THEN conjunct2]
  have 1: "fst (train_loop env epoch n i (b # bs) h s) = Inr h''"
    using Cons.prems IH(1) by (simp add: train_batch_eq)
  have 3: "length (snd h'') = length (snd h) + length (b # bs)"
       "length (fst h'') = length (fst h) + length (b # bs)"
    using IH(2,3) by simp_all
  have 4: "(\<forall>b\<in>set (b # bs). snd b \<noteq> []) \<longrightarrow> (\<forall>x\<in>set (snd h). in_unit x) \<longrightarrow> (\<forall>x\<in>set (snd h''). in_unit x)"
  proof (intro impI)
    assume a: "\<forall>b\<in>set (b # bs). snd b \<noteq> []" and u: "\<forall>x\<in>set (snd h). in_unit x"
    have "in_unit (batch_acc env s b)" using a by (simp add: batch_acc_def batch_accuracy_unit)
    then have "\<forall>x\<in>set (snd ?h'). in_unit x" using u by simp
    moreover have "\<forall>b\<in>set bs. snd b \<noteq> []" using a by simp
    ultimately show "\<forall>x\<in>set (snd h''). in_unit x" using IH(4) by (elim impE) assumption+
  qed
  show ?case
    apply (rule exI[of _ h''])
    apply (intro conjI)
       apply (rule 1)
      apply (rule 3(1))
     apply (rule 3(2))
    apply (rule 4)
    done
qed

section \<open>Properties of valid_one_epoch and train_one_epoch\<close>

lemma valid_one_epoch_trace:
  "trace (snd (valid_one_epoch env epoch isEMA s)) =
     trace s @
     ([LoggerInfo ValidationBanner, ModelEvalMode (select_model isEMA), NoGradEnter]
      @ concat (map (\<lambda>b. [Forward (select_model isEMA), Criterion]) (valid_batches env isEMA s))
      @ [NoGradExit, LoggerInfo (Finish (Accuracy (fst (valid_one_epoch env epoch isEMA s)))
                                       (Loss (fst (valid_one_epoch env epoch isEMA s))))])"
  by (cases isEMA) (simp_all add: valid_one_epoch_state Let_def)

lemma valid_one_epoch_new_events:
  "new_events s (snd (valid_one_epoch env epoch isEMA s)) =
     [LoggerInfo ValidationBanner, ModelEvalMode (select_model isEMA), NoGradEnter]
     @ concat (map (\<lambda>b. [Forward (select_model isEMA), Criterion]) (valid_batches env isEMA s))
     @ [NoGradExit, LoggerInfo (Finish (Accuracy (fst (valid_one_epoch env epoch isEMA s)))
                                      (Loss (fst (valid_one_epoch env epoch isEMA s))))]"
  by (rule new_events_append[OF valid_one_epoch_trace])


lemma models_called_forward:
  "models_called (concat (map (\<lambda>b. [Forward m, Criterion]) bs) @ rest) =
     replicate (length bs) m @ models_called rest"
  by (induction bs) simp_all

text \<open>
  Claim C1. The claim says that \<open>valid_one_epoch\<close> evaluates the EMA model exactly when
  \<open>isEMA\<close> is true. Line 158 does the opposite: every model call of
  \<open>valid_one_epoch(epoch, isEMA=True)\<close> (the \<open>eval()\<close> and one forward pass per batch)
  goes to the live model \<open>self.model\<close>, and every model call of the call with
  \<open>isEMA=False\<close> goes to \<open>self.model_ema\<close>.
\<close>

theorem valid_one_epoch_isEMA_evaluates_live_model:
  "models_called (new_events s (snd (valid_one_epoch env epoch True s))) =
     replicate (Suc (length (valid_batches env True s))) Model \<and>
   models_called (new_events s (snd (valid_one_epoch env epoch False s))) =
     replicate (Suc (length (valid_batches env False s))) ModelEma"
  by (simp add: valid_one_epoch_new_events models_called_forward select_model_def)

text \<open>
  Claim C10. \<open>valid_one_epoch\<close> leaves the bookkeeping of the trainer as it found it:
  \<open>log_iter\<close>, both best metrics and every other field keep their values; the only
  field that changes is the train/eval mode of the model the call selected, which is
  evaluation mode afterwards.
\<close>

theorem valid_one_epoch_frame:
  "(let s' = snd (valid_one_epoch env epoch isEMA s) in
     start_epoch s' = start_epoch s \<and> max_epoch s' = max_epoch s \<and>
     log_freq s' = log_freq s \<and> log_iter s' = log_iter s \<and>
     best_model_metric s' = best_model_metric s \<and>
     best_model_ema_metric s' = best_model_ema_metric s \<and>
     save_dir s' = save_dir s \<and>
     model_training s' = (if select_model isEMA = Model then False else model_training s) \<and>
     model_ema_training s' =
       (if select_model isEMA = ModelEma then False else model_ema_training s))"
  by (simp add: valid_one_epoch_state Let_def select_model_def)

lemma valid_one_epoch_empty:
  "valid_batches env isEMA s = [] \<Longrightarrow>
   fst (valid_one_epoch env epoch isEMA s) = \<lparr>Accuracy = NaN, Loss = NaN\<rparr>"
  by (simp add: valid_one_epoch_metrics np_mean_def)

lemma train_one_epoch_loop:
  "train_one_epoch env epoch s =
     (case train_loop env epoch (length (train_batches env s)) 0 (train_batches env s) ([], [])
             (s\<lparr>model_training := True,
                trace := trace s @ [LoggerInfo TrainingBanner, ModelTrainMode Model]\<rparr>) of
        (Inl err, s3) \<Rightarrow> (Inl err, s3)
      | (Inr h, s3) \<Rightarrow>
          (Inr \<lparr>Accuracy = np_mean (snd h), Loss = np_mean (fst h)\<rparr>,
           s3\<lparr>trace := trace s3 @ [LoggerInfo (Finish (np_mean (snd h)) (np_mean (fst h)))]\<rparr>))"
  by (simp add: train_one_epoch_def train_batches_def emit_def Let_def split: prod.splits sum.splits)

lemma train_one_epoch_empty:
  "train_batches env s = [] \<Longrightarrow>
   fst (train_one_epoch env epoch s) = Inr \<lparr>Accuracy = NaN, Loss = NaN\<rparr>"
  by (simp add: train_one_epoch_loop np_mean_def)

text \<open>
  Claim C9. When the loader yields no batch, the metrics returned by \<open>valid_one_epoch\<close>
  and by \<open>train_one_epoch\<close> are the means of empty histories, which are NaN; the
  accuracy is then no number of the interval from 0 to 1.
\<close>

theorem empty_loader_gives_nan:
  "(valid_batches env isEMA s = [] \<longrightarrow>
      fst (valid_one_epoch env epoch isEMA s) = \<lparr>Accuracy = NaN, Loss = NaN\<rparr> \<and>
      \<not> in_unit (Accuracy (fst (valid_one_epoch env epoch isEMA s)))) \<and>
   (train_batches env s = [] \<longrightarrow>
      fst (train_one_epoch env epoch s) = Inr \<lparr>Accuracy = NaN, Loss = NaN\<rparr>)"
  by (simp add: valid_one_epoch_empty train_one_epoch_empty in_unit_def)

theorem empty_loader_gives_nan_witness:
  "valid_batches empty_env True example_state = [] \<and>
   fst (valid_one_epoch empty_env 0 True example_state) = \<lparr>Accuracy = NaN, Loss = NaN\<rparr> \<and>
   \<not> in_unit (Accuracy (fst (valid_one_epoch empty_env 0 True example_state))) \<and>
   train_batches empty_env example_state = [] \<and>
   fst (train_one_epoch empty_env 0 example_state) = Inr \<lparr>Accuracy = NaN, Loss = NaN\<rparr>"
  using empty_loader_gives_nan [of empty_env True example_state 0]
  by (simp add: valid_batches_def train_batches_def empty_env_def in_unit_def)


theorem valid_one_epoch_frame_witness:
  "(let s' = snd (valid_one_epoch example_env 0 True example_state) in
     log_iter s' = 0 \<and> best_model_metric s' = 0 \<and> best_model_ema_metric s' = 0 \<and>
     model_training s' = False \<and> model_ema_training s' = False)"
  using valid_one_epoch_frame [of example_env 0 True example_state]
  by (simp add: Let_def example_state_def select_model_def)

text \<open>
  Claim C4. In \<open>train_one_epoch\<close> the calls of the training steps are, for every batch
  the loop takes from the loader, the same seven calls in the same order: mixing,
  forward pass, loss, \<open>zero_grad\<close>, \<open>backward\<close>, optimizer step and then the EMA
  update, once each. The loop takes every batch of the loader; when \<open>log_freq\<close> is 0 the
  modulo of line 127 raises in the first iteration, after that batch's EMA update, and
  no further batch is taken.
\<close>

theorem ema_update_once_per_batch:
  "filter is_step_event (new_events s (snd (train_one_epoch env epoch s))) =
     concat (replicate (if log_freq s = 0 then min 1 (length (train_batches env s))
                        else length (train_batches env s)) step_events)"
proof -
  let ?s2 = "s\<lparr>model_training := True,
                trace := trace s @ [LoggerInfo TrainingBanner, ModelTrainMode Model]\<rparr>"
  let ?bs = "train_batches env s"
  let ?L = "train_loop env epoch (length ?bs) 0 ?bs ([], []) ?s2"
  show ?thesis
  proof (cases "log_freq s = 0")
    case True
    show ?thesis
    proof (cases "?bs = []")
      case True
      then show ?thesis
        by (simp add: train_one_epoch_loop new_events_def)
    next
      case False
      have "?L = (Inl ZeroDivisionError, ?s2\<lparr>trace := trace ?s2 @ step_events\<rparr>)"
        using True False by (intro train_loop_zero) simp_all
      then show ?thesis using True False
        by (simp add: train_one_epoch_loop new_events_def filter_step_events min_def)
           (cases ?bs, simp_all)
    qed
  next
    case False
    then have lf: "log_freq ?s2 \<noteq> 0" by simp
    obtain h' where h': "fst ?L = Inr h'"
      using train_loop_result[OF lf, of env epoch "length ?bs" 0 ?bs "([], [])"] by blast
    have ext: "extends ?s2 (snd ?L)" by (rule train_loop_extends)
    define evs where "evs = new_events ?s2 (snd ?L)"
    have tr: "trace (snd ?L) = trace s @ [LoggerInfo TrainingBanner, ModelTrainMode Model] @ evs"
      using ext by (simp add: extends_def evs_def)
    have st: "filter is_step_event (trace (snd ?L)) =
          filter is_step_event (trace s) @ concat (replicate (length ?bs) step_events)"
      using train_loop_steps[OF lf, of env epoch "length ?bs" 0 ?bs "([], [])"] by simp
    have "filter is_step_event evs = concat (replicate (length ?bs) step_events)"
      using st unfolding tr by simp
    moreover have "trace (snd (train_one_epoch env epoch s)) =
        trace s @ ([LoggerInfo TrainingBanner, ModelTrainMode Model] @ evs
         @ [LoggerInfo (Finish (np_mean (snd h')) (np_mean (fst h')))])"
      using h' tr by (cases ?L) (simp add: train_one_epoch_loop)
    then have "new_events s (snd (train_one_epoch env epoch s)) =
        [LoggerInfo TrainingBanner, ModelTrainMode Model] @ evs
         @ [LoggerInfo (Finish (np_mean (snd h')) (np_mean (fst h')))]"
      by (rule new_events_append)
    ultimately show ?thesis using False by simp
  qed
qed

section \<open>The range of the accuracy\<close>








section \<open>Logging inside train_one_epoch\<close>






section \<open>Facts about run\<close>

lemma same_config_refl: "same_config s s"
  by (simp add: same_config_def)

lemma same_config_trans: "same_config s s' \<Longrightarrow> same_config s' s'' \<Longrightarrow> same_config s s''"
  by (simp add: same_config_def)

lemma train_loop_config: "same_config s (snd (train_loop env epoch n i bs h s))"
proof (induction bs arbitrary: h s i)
  case Nil
  show ?case by (simp add: same_config_refl)
next
  case (Cons b bs)
  show ?case
  proof (cases "log_freq s = 0")
    case True
    then show ?thesis by (simp add: train_batch_eq same_config_def)
  next
    case False
    let ?s' = "s\<lparr>trace := trace s @ step_events @
                   (if log_iter s mod log_freq s = 0 then iter_log env epoch n i b h s else []),
              log_iter := log_iter s + 1\<rparr>"
    let ?h' = "(fst h @ [batch_loss env s b], snd h @ [batch_acc env s b])"
    have c1: "same_config s ?s'" by (simp add: same_config_def)
    have step: "train_loop env epoch n i (b # bs) h s = train_loop env epoch n (Suc i) bs ?h' ?s'"
      using False by (simp add: train_batch_eq)
    show ?thesis unfolding step by (rule same_config_trans[OF c1 Cons.IH])
  qed
qed

lemma train_one_epoch_config: "same_config s (snd (train_one_epoch env epoch s))"
proof -
  let ?s2 = "s\<lparr>model_training := True,
                trace := trace s @ [LoggerInfo TrainingBanner, ModelTrainMode Model]\<rparr>"
  let ?L = "train_loop env epoch (length (train_batches env s)) 0 (train_batches env s) ([], []) ?s2"
  have "same_config s ?s2" by (simp add: same_config_def)
  moreover have "same_config ?s2 (snd ?L)" by (rule train_loop_config)
  ultimately have "same_config s (snd ?L)" by (rule same_config_trans)
  then show ?thesis
    by (cases ?L) (auto simp add: train_one_epoch_loop same_config_def split: sum.splits)
qed


lemma valid_one_epoch_config: "same_config s (snd (valid_one_epoch env epoch isEMA s))"
  by (cases isEMA) (simp_all add: valid_one_epoch_state Let_def same_config_def)


lemma epoch_start_config: "same_config s (epoch_start epoch s)"
  by (simp add: epoch_start_def emit_def same_config_def)

lemma run_epoch_unfold:
  "run_epoch env epoch s =
     (case train_result env epoch s of
        Inl err \<Rightarrow> (Inl err, after_train env epoch s)
      | Inr tm \<Rightarrow>
          (Inr (), epoch_tail env epoch tm (valid_result env epoch s)
                     (valid_ema_result env epoch s) (after_valid_ema env epoch s)))"
  by (simp add: run_epoch_def epoch_tail_def train_result_def after_train_def valid_result_def
        after_valid_def valid_ema_result_def after_valid_ema_def epoch_start_def Let_def
        split: prod.splits sum.splits)

lemma epoch_tail_state:
  "epoch_tail env epoch tm vm vem s5 =
     (let is_best = float_gt (Accuracy vm) (best_model_metric s5);
          is_ema_best = float_gt (Accuracy vem) (best_model_ema_metric s5);
          b1 = (if is_best then fin_value (Accuracy vm) (best_model_metric s5)
                else best_model_metric s5);
          b2 = (if is_ema_best then fin_value (Accuracy vem) (best_model_ema_metric s5)
                else best_model_ema_metric s5);
          tr8 = trace s5 @ [GcCollect, SaveCheckpoint epoch is_best is_ema_best (save_dir s5) b1 b2]
      in s5\<lparr>best_model_metric := b1, best_model_ema_metric := b2,
            trace := tr8 @
              [AddScalar ''Learing rate'' (get_lr env tr8) epoch,
               AddScalar ''Train/Accuracy'' (Accuracy tm) epoch,
               AddScalar ''Train/Loss'' (Loss tm) epoch,
               AddScalar ''Valid/Accuracy'' (Accuracy vm) epoch,
               AddScalar ''Valid/Loss'' (Loss vm) epoch,
               AddScalar ''Valid/EMA_Accuracy'' (Accuracy vem) epoch,
               AddScalar ''Valid/EMA_Loss'' (Loss vem) epoch,
               LoggerInfo Separator]\<rparr>)"
  by (simp add: epoch_tail_def check_best_def save_checkpoint_def write_log_def emit_def Let_def)




lemma after_train_config: "same_config s (after_train env epoch s)"
  unfolding after_train_def
  by (rule same_config_trans[OF epoch_start_config train_one_epoch_config])

lemma after_valid_config: "same_config s (after_valid env epoch s)"
  unfolding after_valid_def
  by (rule same_config_trans[OF after_train_config valid_one_epoch_config])

lemma after_valid_ema_config: "same_config s (after_valid_ema env epoch s)"
  unfolding after_valid_ema_def
  by (rule same_config_trans[OF after_valid_config valid_one_epoch_config])










lemma epoch_tail_bests:
  "best_model_metric (epoch_tail env epoch tm vm vem s5) =
     (if float_gt (Accuracy vm) (best_model_metric s5)
      then fin_value (Accuracy vm) (best_model_metric s5) else best_model_metric s5)"
  "best_model_ema_metric (epoch_tail env epoch tm vm vem s5) =
     (if float_gt (Accuracy vem) (best_model_ema_metric s5)
      then fin_value (Accuracy vem) (best_model_ema_metric s5) else best_model_ema_metric s5)"
  by (simp_all add: epoch_tail_state Let_def)


lemma float_gt_fin_value: "float_gt x b \<Longrightarrow> b < fin_value x b"
  by (cases x) simp_all

lemma epoch_tail_bests_le: "bests_le s5 (epoch_tail env epoch tm vm vem s5)"
  by (auto simp: bests_le_def epoch_tail_bests dest: float_gt_fin_value)

lemma bests_le_refl: "bests_le s s"
  by (simp add: bests_le_def)

lemma bests_le_trans: "bests_le s s' \<Longrightarrow> bests_le s' s'' \<Longrightarrow> bests_le s s''"
  by (auto simp: bests_le_def)

lemma same_config_bests_le: "same_config s s' \<Longrightarrow> bests_le s s'"
  by (simp add: same_config_def bests_le_def)

lemma run_epoch_ok:
  "train_result env epoch s = Inr tm \<Longrightarrow>
   run_epoch env epoch s =
     (Inr (), epoch_tail env epoch tm (valid_result env epoch s) (valid_ema_result env epoch s)
                (after_valid_ema env epoch s))"
  by (simp add: run_epoch_unfold)

lemma run_epoch_err:
  "train_result env epoch s = Inl err \<Longrightarrow> run_epoch env epoch s = (Inl err, after_train env epoch s)"
  by (simp add: run_epoch_unfold)

lemma run_epoch_bests_le: "bests_le s (snd (run_epoch env epoch s))"
proof (cases "train_result env epoch s")
  case (Inl err)
  then show ?thesis
    by (simp add: run_epoch_err same_config_bests_le[OF after_train_config])
next
  case (Inr tm)
  have "bests_le s (after_valid_ema env epoch s)"
    by (rule same_config_bests_le[OF after_valid_ema_config])
  then show ?thesis using Inr
    by (simp add: run_epoch_ok) (erule bests_le_trans, rule epoch_tail_bests_le)
qed

lemma run_epochs_bests_le: "bests_le s (snd (run_epochs env es s))"
proof (induction es arbitrary: s)
  case Nil
  show ?case by (simp add: bests_le_refl)
next
  case (Cons e es)
  obtain r s' where step: "run_epoch env e s = (r, s')" by (cases "run_epoch env e s")
  have le: "bests_le s s'" using run_epoch_bests_le[of s env e] step by simp
  show ?case
  proof (cases r)
    case (Inl err)
    then show ?thesis using step le by simp
  next
    case (Inr u)
    then show ?thesis using step bests_le_trans[OF le Cons.IH[of s']] by simp
  qed
qed

lemma run_epochs_append:
  "run_epochs env (es @ es') s =
     (case run_epochs env es s of
        (Inl err, s') \<Rightarrow> (Inl err, s')
      | (Inr u, s') \<Rightarrow> run_epochs env es' s')"
  by (induction es arbitrary: s) (simp_all split: prod.splits sum.splits)

lemma run_epochs_prefix_bests_le:
  "bests_le (snd (run_epochs env es s)) (snd (run_epochs env (es @ es') s))"
proof (cases "run_epochs env es s")
  case (Pair r s')
  show ?thesis
  proof (cases r)
    case (Inl err)
    then show ?thesis using Pair by (simp add: run_epochs_append bests_le_refl)
  next
    case (Inr u)
    then show ?thesis using Pair run_epochs_bests_le[of s' env es']
      by (simp add: run_epochs_append)
  qed
qed

lemma run_bests_le: "bests_le s (snd (run env s))"
proof -
  let ?s2 = "emit OptimizerStep (emit ZeroGrad s)"
  have "bests_le s ?s2" by (simp add: bests_le_def emit_def)
  then show ?thesis
    unfolding run_def Let_def by (rule bests_le_trans[OF _ run_epochs_bests_le])
qed

section \<open>Properties of run\<close>

text \<open>
  Claim C3. The two best metrics never decrease: not over one pass through the body of
  the loop of \<open>run\<close>, whatever state it starts in; not from the end of any number of
  epochs to the end of further epochs; and not over a whole \<open>run\<close>.
\<close>

theorem best_metrics_non_decreasing:
  "best_model_metric s \<le> best_model_metric (snd (run_epoch env epoch s)) \<and>
   best_model_ema_metric s \<le> best_model_ema_metric (snd (run_epoch env epoch s)) \<and>
   best_model_metric (snd (run_epochs env es s)) \<le>
     best_model_metric (snd (run_epochs env (es @ es') s)) \<and>
   best_model_ema_metric (snd (run_epochs env es s)) \<le>
     best_model_ema_metric (snd (run_epochs env (es @ es') s)) \<and>
   best_model_metric s \<le> best_model_metric (snd (run env s)) \<and>
   best_model_ema_metric s \<le> best_model_ema_metric (snd (run env s))"
  using run_epoch_bests_le[of s env epoch] run_epochs_prefix_bests_le[of env es s es']
    run_bests_le[of s env]
  by (simp add: bests_le_def)

text \<open>
  Claim C8. When \<open>max_epoch\<close> equals \<open>start_epoch\<close>, \<open>run\<close> returns after the initial
  \<open>zero_grad\<close> and optimizer step: these two calls are all it adds to the trace (no
  training step, no \<open>save_checkpoint\<close>), and every field of the trainer, the best metrics
  and the logging counter among them, keeps its value.
\<close>

theorem no_epoch_when_max_is_start:
  "max_epoch s = start_epoch s \<Longrightarrow>
   run env s = (Inr (), s\<lparr>trace := trace s @ [ZeroGrad, OptimizerStep]\<rparr>)"
  by (simp add: run_def emit_def Let_def)

theorem no_epoch_when_max_is_start_witness:
  "max_epoch (example_state\<lparr>max_epoch := 0\<rparr>) = start_epoch (example_state\<lparr>max_epoch := 0\<rparr>) \<and>
   run example_env (example_state\<lparr>max_epoch := 0\<rparr>) =
     (Inr (), example_state\<lparr>max_epoch := 0, trace := [ZeroGrad, OptimizerStep]\<rparr>)"
  using no_epoch_when_max_is_start [of "example_state\<lparr>max_epoch := 0\<rparr>" example_env]
  by (simp add: example_state_def)
















end
